theory Spec2Isabelle
  imports Main
begin

section \<open>The idle timer of src/src/useIdleTimer.js\<close>

text \<open>
  The hook keeps its session state in mutable holder cells (\<open>useRef\<close>) and changes
  them from event callbacks, timer callbacks and the public operations. The model is
  explicit state passing: one record for the cells together with the part of the
  JavaScript runtime the code talks to (the table of scheduled one-shot timers and
  the calls made to the user's callbacks). Every operation runs synchronously; the
  value \<open>now\<close> it takes is what \<open>+new Date()\<close> returns while it runs.
  Timestamps and durations are integers (milliseconds).
\<close>

subsection \<open>Values, events and configuration\<close>

text \<open>
  The JavaScript values the pointer cells and the coordinate test meet: the primitives
  \<open>undefined\<close>, \<open>null\<close> and numbers, and the two holder objects themselves
  (the variables \<open>pageX\<close> and \<open>pageY\<close> of the hook are the objects returned by
  \<open>useRef\<close>; their contents are \<open>pageX.current\<close> and \<open>pageY.current\<close>).
\<close>

datatype holder = PageXRef | PageYRef

datatype jsval = JUndefined | JNull | JNum int | JHolder holder

text \<open>Strict equality \<open>===\<close> on these values: equal primitives, or the same object.\<close>

definition strict_eq :: "jsval \<Rightarrow> jsval \<Rightarrow> bool" where
  "strict_eq a b = (a = b)"

text \<open>
  An activity event: its \<open>type\<close> and its \<open>pageX\<close>, \<open>pageY\<close> properties, each a
  number or absent (\<open>None\<close> is \<open>undefined\<close>).
\<close>

record event =
  etype :: string
  e_pageX :: "int option"
  e_pageY :: "int option"

definition prop_val :: "int option \<Rightarrow> jsval" where
  "prop_val c = (case c of None \<Rightarrow> JUndefined | Some n \<Rightarrow> JNum n)"

text \<open>
  The options of the hook that the modelled code reads, and \<open>IS_BROWSER\<close> of the
  utilities module, which is taken as a parameter.
\<close>

record config =
  timeout :: int
  debounce :: int
  throttle :: int
  eventsThrottle :: int
  startOnMount :: bool
  stopOnIdle :: bool
  is_browser :: bool

subsection \<open>Session state\<close>

datatype callback = OnIdle | OnActive | OnAction

text \<open>
  A call of one of the three emitters, with its argument and with what \<open>isIdle()\<close>
  and \<open>getLastIdleTime()\<close> return to code running inside that call.
\<close>

record call =
  cb :: callback
  arg :: "event option"
  seenIdle :: bool
  seenLastIdle :: "int option"

text \<open>A one-shot timer scheduled by \<open>setTimeout\<close> and not yet fired or cleared.\<close>

record scheduled =
  hid :: nat
  armedAt :: int
  delay :: int

record refs =
  eventsBound :: bool
  idle :: bool
  oldDate :: int
  remaining :: "int option"
  pageX :: jsval
  pageY :: jsval
  tId :: "nat option"
  lastActive :: "int option"
  lastIdle :: "int option"
  idleTime :: int
  firstLoad :: bool
  timeout_ref :: int
  timers :: "scheduled list"
  nextHandle :: nat
  calls :: "call list"

text \<open>A nullable timestamp in arithmetic: \<open>null\<close> converts to 0.\<close>

definition to_number :: "int option \<Rightarrow> int" where
  "to_number v = (case v of None \<Rightarrow> 0 | Some n \<Rightarrow> n)"

text \<open>Truthiness of a nullable number: \<open>null\<close> and 0 are falsy.\<close>

definition truthy :: "int option \<Rightarrow> bool" where
  "truthy v = (case v of None \<Rightarrow> False | Some n \<Rightarrow> n \<noteq> 0)"

subsection \<open>The runtime: timers and callbacks\<close>

text \<open>\<open>clearTimeout(tId.current); tId.current = null\<close>\<close>

definition clearTimeout :: "nat option \<Rightarrow> refs \<Rightarrow> refs" where
  "clearTimeout h s =
     (case h of
        None \<Rightarrow> s
      | Some i \<Rightarrow> s\<lparr>timers := filter (\<lambda>t. hid t \<noteq> i) (timers s)\<rparr>)"

definition clear_tId :: "refs \<Rightarrow> refs" where
  "clear_tId s = (clearTimeout (tId s) s)\<lparr>tId := None\<rparr>"

text \<open>\<open>tId.current = setTimeout(_toggleIdleState, d)\<close>\<close>

definition setTimeout_tId :: "int \<Rightarrow> int \<Rightarrow> refs \<Rightarrow> refs" where
  "setTimeout_tId d now s =
     s\<lparr>tId := Some (nextHandle s),
       timers := timers s @ [\<lparr>hid = nextHandle s, armedAt = now, delay = d\<rparr>],
       nextHandle := Suc (nextHandle s)\<rparr>"

definition emit :: "callback \<Rightarrow> event option \<Rightarrow> refs \<Rightarrow> refs" where
  "emit c e s =
     s\<lparr>calls := calls s @
        [\<lparr>cb = c, arg = e, seenIdle = idle s, seenLastIdle = lastIdle s\<rparr>]\<rparr>"

subsection \<open>Binding\<close>

definition bindEvents :: "config \<Rightarrow> refs \<Rightarrow> refs" where
  "bindEvents cfg s =
     (if \<not> is_browser cfg then s
      else if \<not> eventsBound s then s\<lparr>eventsBound := True\<rparr>
      else s)"

definition unbindEvents :: "config \<Rightarrow> bool \<Rightarrow> refs \<Rightarrow> refs" where
  "unbindEvents cfg force s =
     (if \<not> is_browser cfg then s
      else if eventsBound s \<or> force then s\<lparr>eventsBound := False\<rparr>
      else s)"

subsection \<open>Accessors\<close>

definition getRemainingTime :: "refs \<Rightarrow> int \<Rightarrow> int" where
  "getRemainingTime s now =
     (case remaining s of
        Some r \<Rightarrow> (if r < 0 then 0 else r)
      | None \<Rightarrow>
          (let timeLeft = timeout_ref s - (now - to_number (lastActive s))
           in if timeLeft < 0 then 0 else timeLeft))"

definition getElapsedTime :: "refs \<Rightarrow> int \<Rightarrow> int" where
  "getElapsedTime s now = now - oldDate s"

definition getLastIdleTime :: "refs \<Rightarrow> int option" where
  "getLastIdleTime s = lastIdle s"

definition getLastActiveTime :: "refs \<Rightarrow> int option" where
  "getLastActiveTime s = lastActive s"

definition isIdle :: "refs \<Rightarrow> bool" where
  "isIdle s = idle s"

subsection \<open>The state machine\<close>

text \<open>\<open>_toggleIdleState(e)\<close>; the timer calls it with no argument.\<close>

definition toggleIdleState :: "config \<Rightarrow> event option \<Rightarrow> int \<Rightarrow> refs \<Rightarrow> refs" where
  "toggleIdleState cfg e now s =
     (let nextIdle = \<not> idle s;
          s1 = s\<lparr>idle := nextIdle\<rparr>
      in if nextIdle then
           (let s2 = (if stopOnIdle cfg then unbindEvents cfg False (clear_tId s1) else s1);
                s3 = s2\<lparr>lastIdle := Some (now - timeout_ref s2)\<rparr>
            in emit OnIdle e s3)
         else if \<not> stopOnIdle cfg then
           (let s2 = s1\<lparr>idleTime := idleTime s1 + (now - to_number (lastIdle s1))\<rparr>;
                s3 = bindEvents cfg s2
            in emit OnActive e s3)
         else s1)"

text \<open>
  The three early returns of \<open>_handleEvent\<close> for a \<open>mousemove\<close>. The first test
  compares the event's coordinates with the holder objects \<open>pageX\<close> and \<open>pageY\<close>,
  as the source does, not with their contents.
\<close>

definition mousemove_ignored :: "event \<Rightarrow> int \<Rightarrow> refs \<Rightarrow> bool" where
  "mousemove_ignored e now s =
     (if strict_eq (prop_val (e_pageX e)) (JHolder PageXRef) \<and>
         strict_eq (prop_val (e_pageY e)) (JHolder PageYRef) then True
      else if e_pageX e = None \<and> e_pageY e = None then True
      else getElapsedTime s now < 200)"

definition handleEvent :: "config \<Rightarrow> event \<Rightarrow> int \<Rightarrow> refs \<Rightarrow> refs" where
  "handleEvent cfg e now s =
     (let s0 = emit OnAction (Some e) s
      in if truthy (remaining s0) then s0
         else if etype e = ''mousemove'' \<and> mousemove_ignored e now s0 then s0
         else
           (let s1 = clear_tId s0;
                elapsedTimeSinceLastActive = now - to_number (getLastActiveTime s1);
                s2 = (if (idle s1 \<and> \<not> stopOnIdle cfg) \<or>
                         (\<not> idle s1 \<and> elapsedTimeSinceLastActive > timeout_ref s1)
                      then toggleIdleState cfg (Some e) now s1 else s1);
                s3 = s2\<lparr>lastActive := Some now,
                        pageX := prop_val (e_pageX e),
                        pageY := prop_val (e_pageY e)\<rparr>
            in if idle s3 then
                 (if \<not> stopOnIdle cfg then setTimeout_tId (timeout_ref s3) now s3 else s3)
               else setTimeout_tId (timeout_ref s3) now s3))"

subsection \<open>Public operations\<close>

definition reset :: "config \<Rightarrow> int \<Rightarrow> refs \<Rightarrow> refs" where
  "reset cfg now s =
     (let s1 = clear_tId s;
          s2 = bindEvents cfg s1;
          s3 = s2\<lparr>idle := False, oldDate := now, lastActive := Some now, remaining := None\<rparr>
      in setTimeout_tId (timeout_ref s3) now s3)"

definition pause :: "config \<Rightarrow> int \<Rightarrow> refs \<Rightarrow> refs" where
  "pause cfg now s =
     (case remaining s of
        Some r \<Rightarrow> s
      | None \<Rightarrow>
          (let s1 = unbindEvents cfg False s;
               s2 = clear_tId s1
           in s2\<lparr>remaining := Some (getRemainingTime s2 now)\<rparr>))"

definition resume :: "config \<Rightarrow> int \<Rightarrow> refs \<Rightarrow> refs" where
  "resume cfg now s =
     (case remaining s of
        None \<Rightarrow> s
      | Some r \<Rightarrow>
          (let s1 = bindEvents cfg s
           in if \<not> idle s1 then
                (setTimeout_tId r now s1)\<lparr>remaining := None, lastActive := Some now\<rparr>
              else s1))"

subsection \<open>Hook lifecycle\<close>

datatype error = ConfigurationError

text \<open>
  The cells as the first render creates them, at time \<open>now\<close>; no timer of the hook
  is scheduled yet, and the runtime's next timer handle is taken to be 1.
\<close>

definition initial :: "config \<Rightarrow> int \<Rightarrow> refs" where
  "initial cfg now =
     \<lparr>eventsBound = False, idle = True, oldDate = now, remaining = None,
      pageX = JNull, pageY = JNull, tId = None, lastActive = None, lastIdle = None,
      idleTime = 0, firstLoad = True, timeout_ref = timeout cfg,
      timers = [], nextHandle = 1, calls = []\<rparr>"

text \<open>
  The first effect. Wrapping \<open>_handleEvent\<close> in the events throttle decides only
  which events reach it, and changes no cell.
\<close>

definition mountEffect :: "config \<Rightarrow> int \<Rightarrow> refs \<Rightarrow> error + refs" where
  "mountEffect cfg now s =
     (if debounce cfg > 0 \<and> throttle cfg > 0 then Inl ConfigurationError
      else
        (let s1 = bindEvents cfg s
         in Inr (if startOnMount cfg then reset cfg now s1 else s1)))"

text \<open>The effect on \<open>timeout\<close>: it runs after mounting and whenever the option changes.\<close>

definition timeoutEffect :: "config \<Rightarrow> int \<Rightarrow> int \<Rightarrow> refs \<Rightarrow> refs" where
  "timeoutEffect cfg new_timeout now s =
     (let s1 = s\<lparr>timeout_ref := new_timeout\<rparr>;
          s2 = (if idle s1 \<and> \<not> firstLoad s1 then toggleIdleState cfg None now s1 else s1);
          s3 = (case tId s2 of None \<Rightarrow> s2 | Some h \<Rightarrow> reset cfg now s2)
      in s3\<lparr>firstLoad := False\<rparr>)"

text \<open>
  Setting the hook up: the first render and its effects in their order, all at the
  clock reading \<open>now\<close>. The effects that store the callbacks change none of the
  modelled cells.
\<close>

definition useIdleTimer :: "config \<Rightarrow> int \<Rightarrow> error + refs" where
  "useIdleTimer cfg now =
     (case mountEffect cfg now (initial cfg now) of
        Inl err \<Rightarrow> Inl err
      | Inr s \<Rightarrow> Inr (timeoutEffect cfg (timeout cfg) now s))"

text \<open>
  The runtime fires the scheduled timer \<open>h\<close> once it is due: the timer leaves the
  table and \<open>_toggleIdleState\<close> runs with no argument. \<open>tId.current\<close> keeps the
  handle. \<open>None\<close>: no such timer is scheduled, or it is not due yet.
\<close>

definition fireTimer :: "config \<Rightarrow> nat \<Rightarrow> int \<Rightarrow> refs \<Rightarrow> refs option" where
  "fireTimer cfg h now s =
     (case find (\<lambda>t. hid t = h) (timers s) of
        None \<Rightarrow> None
      | Some t \<Rightarrow>
          if now < armedAt t + delay t then None
          else Some (toggleIdleState cfg None now
                       (s\<lparr>timers := filter (\<lambda>t. hid t \<noteq> h) (timers s)\<rparr>)))"

subsection \<open>Sessions\<close>

datatype action = Deliver event | Pause | Resume | Reset | Fire nat | Retime int

fun step :: "config \<Rightarrow> int \<times> action \<Rightarrow> refs \<Rightarrow> refs option" where
  "step cfg (now, Deliver e) s = Some (handleEvent cfg e now s)"
| "step cfg (now, Pause) s = Some (pause cfg now s)"
| "step cfg (now, Resume) s = Some (resume cfg now s)"
| "step cfg (now, Reset) s = Some (reset cfg now s)"
| "step cfg (now, Fire h) s = fireTimer cfg h now s"
| "step cfg (now, Retime t) s = Some (timeoutEffect cfg t now s)"

fun run :: "config \<Rightarrow> (int \<times> action) list \<Rightarrow> refs \<Rightarrow> refs option" where
  "run cfg [] s = Some s"
| "run cfg (a # as) s = (case step cfg a s of None \<Rightarrow> None | Some s' \<Rightarrow> run cfg as s')"

text \<open>A session: set the hook up at \<open>t0\<close>, then the timed actions in their order.\<close>

definition session :: "config \<Rightarrow> int \<Rightarrow> (int \<times> action) list \<Rightarrow> refs option" where
  "session cfg t0 acts =
     (case useIdleTimer cfg t0 of Inl err \<Rightarrow> None | Inr s \<Rightarrow> run cfg acts s)"

text \<open>Delivering a list of timed events to \<open>_handleEvent\<close>, in their order.\<close>

fun deliver :: "config \<Rightarrow> (int \<times> event) list \<Rightarrow> refs \<Rightarrow> refs" where
  "deliver cfg [] s = s"
| "deliver cfg ((now, e) # es) s = deliver cfg es (handleEvent cfg e now s)"

text \<open>
  The call \<open>_handleEvent\<close> makes to the \<open>onAction\<close> emitter for an event \<open>e\<close>
  delivered in state \<open>s\<close>.
\<close>

definition action_call :: "refs \<Rightarrow> event \<Rightarrow> call" where
  "action_call s e = \<lparr>cb = OnAction, arg = Some e, seenIdle = idle s, seenLastIdle = lastIdle s\<rparr>"

subsection \<open>Example configurations and events\<close>

definition cfg1000 :: config where
  "cfg1000 = \<lparr>timeout = 1000, debounce = 0, throttle = 0, eventsThrottle = 200,
     startOnMount = True, stopOnIdle = False, is_browser = True\<rparr>"

definition keydown :: event where
  "keydown = \<lparr>etype = ''keydown'', e_pageX = None, e_pageY = None\<rparr>"

definition mousemove_at :: "int \<Rightarrow> int \<Rightarrow> event" where
  "mousemove_at x y = \<lparr>etype = ''mousemove'', e_pageX = Some x, e_pageY = Some y\<rparr>"

definition cfgStop :: config where
  "cfgStop = cfg1000\<lparr>stopOnIdle := True\<rparr>"

definition cfgDormant :: config where
  "cfgDormant = cfg1000\<lparr>startOnMount := False\<rparr>"

definition cfgDormantStop :: config where
  "cfgDormantStop = cfg1000\<lparr>startOnMount := False, stopOnIdle := True\<rparr>"

section \<open>Properties\<close>

lemmas model_defs =
  session_def useIdleTimer_def mountEffect_def initial_def timeoutEffect_def reset_def
  bindEvents_def unbindEvents_def clear_tId_def clearTimeout_def setTimeout_tId_def
  fireTimer_def toggleIdleState_def emit_def pause_def resume_def handleEvent_def
  mousemove_ignored_def strict_eq_def prop_val_def getRemainingTime_def getElapsedTime_def
  getLastActiveTime_def getLastIdleTime_def isIdle_def to_number_def truthy_def Let_def

lemmas example_defs =
  cfg1000_def cfgStop_def cfgDormant_def cfgDormantStop_def keydown_def mousemove_at_def

subsection \<open>Remaining time\<close>

lemma getRemainingTime_nonneg: "0 \<le> getRemainingTime s now"
  by (simp add: getRemainingTime_def Let_def split: option.split)

text \<open>
  C7: \<open>getRemainingTime()\<close> returns the frozen snapshot floored at 0 whenever the
  snapshot is non-null, and otherwise \<open>timeout - (now - lastActive)\<close> floored at 0
  (a \<open>null\<close> \<open>lastActive\<close> counts as 0 in the subtraction); the result is never
  negative. It is a read: the function returns a number and no state.
\<close>

theorem getRemainingTime_spec:
  "(remaining s = Some r \<longrightarrow> getRemainingTime s now = max 0 r) \<and>
   (remaining s = None \<longrightarrow>
      getRemainingTime s now = max 0 (timeout_ref s - (now - to_number (lastActive s)))) \<and>
   0 \<le> getRemainingTime s now"
  by (auto simp add: getRemainingTime_def Let_def max_def split: option.split)

theorem getRemainingTime_spec_witness:
  "remaining (initial cfg1000 0) = None \<and>
   getRemainingTime (initial cfg1000 0) 400 = 600 \<and>
   remaining ((initial cfg1000 0)\<lparr>remaining := Some (- 5)\<rparr>) = Some (- 5) \<and>
   getRemainingTime ((initial cfg1000 0)\<lparr>remaining := Some (- 5)\<rparr>) 400 = 0"
  using getRemainingTime_spec [of "initial cfg1000 0" 0 400]
    getRemainingTime_spec [of "(initial cfg1000 0)\<lparr>remaining := Some (- 5)\<rparr>" "- 5" 400]
  by (simp add: initial_def cfg1000_def to_number_def)

subsection \<open>Pause and resume\<close>

text \<open>
  C8: \<open>pause()\<close> and \<open>resume()\<close> are idempotent. From every state, a second
  \<open>pause()\<close> (at any later clock reading) leaves the state the first one produced,
  and likewise a second \<open>resume()\<close>.
\<close>

theorem pause_resume_idempotent:
  "pause cfg t2 (pause cfg t1 s) = pause cfg t1 s \<and>
   resume cfg t2 (resume cfg t1 s) = resume cfg t1 s"
  by (simp add: pause_def resume_def bindEvents_def setTimeout_tId_def Let_def
      split: option.split)

text \<open>
  What \<open>resume()\<close> right after \<open>pause()\<close> does to a running, active timer: the
  deadline is armed for the remaining time read before the pause, but
  \<open>lastActive\<close> becomes the time of the resume, so \<open>getRemainingTime()\<close> reports the
  whole timeout.
\<close>

lemma resume_after_pause_active:
  assumes "remaining s = None" and "\<not> idle s" and "0 \<le> timeout_ref s"
  shows "getRemainingTime (resume cfg now (pause cfg now s)) now = timeout_ref s"
    and "last (timers (resume cfg now (pause cfg now s))) =
           \<lparr>hid = nextHandle s, armedAt = now, delay = getRemainingTime s now\<rparr>"
  using assms by (simp_all add: model_defs split: option.split)

text \<open>
  C1: \<open>pause()\<close> followed at once by \<open>resume()\<close> should preserve
  \<open>getRemainingTime()\<close>. The code evaluated where it does not: timeout 1000, set up
  at time 0, paused and resumed at time 600. Before the pause 400 ms remain; after
  the resume the deadline is armed for 400 ms, and \<open>getRemainingTime()\<close> reports 1000.
\<close>

theorem pause_resume_remaining_at_600:
  "map_option (\<lambda>s. getRemainingTime s 600) (session cfg1000 0 []) = Some 400 \<and>
   map_option (\<lambda>s. getRemainingTime s 600)
     (session cfg1000 0 [(600, Pause), (600, Resume)]) = Some 1000 \<and>
   map_option timers (session cfg1000 0 [(600, Pause), (600, Resume)]) =
     Some [\<lparr>hid = 3, armedAt = 600, delay = 400\<rparr>]"
  by (simp add: model_defs example_defs)

subsection \<open>Mouse movement\<close>

text \<open>
  The same-coordinates test of \<open>_handleEvent\<close> never holds: an event's coordinate is
  a number or \<open>undefined\<close>, and the test compares it with a holder object.
\<close>

lemma same_coordinates_test_never_holds:
  "\<not> (strict_eq (prop_val (e_pageX e)) (JHolder PageXRef) \<and>
      strict_eq (prop_val (e_pageY e)) (JHolder PageYRef))"
  by (simp add: strict_eq_def prop_val_def split: option.split)

text \<open>
  C2: a \<open>mousemove\<close> whose coordinates equal the last recorded ones should be
  discarded. The code evaluated where it is not: timeout 1000, set up at time 0, a
  \<open>mousemove\<close> at (5, 5) at time 300 and the same \<open>mousemove\<close> again at time
  600. The first one records (5, 5), \<open>lastActive = 300\<close> and the deadline 3 armed at
  300; the second one moves \<open>lastActive\<close> to 600 and replaces the deadline by one
  armed at 600.
\<close>

theorem mousemove_same_coordinates_at_600:
  "map_option (\<lambda>s. (pageX s, pageY s, lastActive s, tId s, timers s))
     (session cfg1000 0 [(300, Deliver (mousemove_at 5 5))]) =
     Some (JNum 5, JNum 5, Some 300, Some 3, [\<lparr>hid = 3, armedAt = 300, delay = 1000\<rparr>]) \<and>
   map_option (\<lambda>s. (pageX s, pageY s, lastActive s, tId s, timers s))
     (session cfg1000 0 [(300, Deliver (mousemove_at 5 5)), (600, Deliver (mousemove_at 5 5))]) =
     Some (JNum 5, JNum 5, Some 600, Some 4, [\<lparr>hid = 4, armedAt = 600, delay = 1000\<rparr>])"
  by (simp add: model_defs example_defs)

subsection \<open>Reset\<close>

text \<open>
  C3: from every state \<open>reset()\<close> returns a state (the operation is total) that is
  Active, with \<open>lastActive = oldDate = now\<close>, the snapshot cleared, the events
  bound (in a browser), the old deadline cancelled and a new one armed for the
  timeout under a new handle; for a timeout that is not negative
  \<open>getRemainingTime()\<close> at that moment is the timeout.
\<close>

theorem reset_spec:
  "isIdle (reset cfg now s) = False \<and>
   lastActive (reset cfg now s) = Some now \<and>
   oldDate (reset cfg now s) = now \<and>
   remaining (reset cfg now s) = None \<and>
   eventsBound (reset cfg now s) = (is_browser cfg \<or> eventsBound s) \<and>
   tId (reset cfg now s) = Some (nextHandle s) \<and>
   timers (reset cfg now s) =
     filter (\<lambda>t. Some (hid t) \<noteq> tId s) (timers s) @
       [\<lparr>hid = nextHandle s, armedAt = now, delay = timeout_ref s\<rparr>] \<and>
   (0 \<le> timeout_ref s \<longrightarrow> getRemainingTime (reset cfg now s) now = timeout_ref s)"
  by (simp add: model_defs split: option.split)

theorem reset_spec_witness:
  "0 \<le> timeout_ref (initial cfg1000 0) \<and>
   isIdle (initial cfg1000 0) \<and>
   isIdle (reset cfg1000 5 (initial cfg1000 0)) = False \<and>
   getRemainingTime (reset cfg1000 5 (initial cfg1000 0)) 5 = 1000 \<and>
   timers (reset cfg1000 5 (initial cfg1000 0)) = [\<lparr>hid = 1, armedAt = 5, delay = 1000\<rparr>]"
  using reset_spec [of cfg1000 5 "initial cfg1000 0"]
  by (simp add: initial_def cfg1000_def isIdle_def)

subsection \<open>Stopping on idle\<close>

lemma handleEvent_keeps_idle:
  "stopOnIdle cfg \<Longrightarrow> idle s \<Longrightarrow> idle (handleEvent cfg e now s)"
  by (simp add: handleEvent_def emit_def clear_tId_def clearTimeout_def Let_def
      split: option.split)

lemma deliver_keeps_idle:
  "stopOnIdle cfg \<Longrightarrow> idle s \<Longrightarrow> idle (deliver cfg es s)"
  by (induction es arbitrary: s) (auto simp: handleEvent_keeps_idle)

text \<open>
  C4: with \<open>stopOnIdle\<close>, once the machine is Idle no sequence of delivered events
  makes it Active: \<open>isIdle()\<close> stays true after every list of events, until
  \<open>reset()\<close>, which makes it false.
\<close>

theorem stopOnIdle_events_keep_idle:
  "stopOnIdle cfg \<Longrightarrow> isIdle s \<Longrightarrow>
     isIdle (deliver cfg es s) \<and> \<not> isIdle (reset cfg now (deliver cfg es s))"
  by (simp add: isIdle_def deliver_keeps_idle reset_def setTimeout_tId_def Let_def)

theorem stopOnIdle_events_keep_idle_witness:
  "stopOnIdle cfgStop \<and>
   map_option isIdle (session cfgStop 0 [(1000, Fire 2)]) = Some True \<and>
   map_option (\<lambda>s. isIdle (deliver cfgStop [(1200, keydown), (1500, mousemove_at 3 4)] s))
     (session cfgStop 0 [(1000, Fire 2)]) = Some True \<and>
   map_option (\<lambda>s. isIdle (reset cfgStop 1600
       (deliver cfgStop [(1200, keydown), (1500, mousemove_at 3 4)] s)))
     (session cfgStop 0 [(1000, Fire 2)]) = Some False"
proof -
  obtain s where s: "session cfgStop 0 [(1000, Fire 2)] = Some s" and i: "isIdle s"
    by (simp add: model_defs example_defs)
  have c: "stopOnIdle cfgStop"
    by (simp add: cfgStop_def cfg1000_def)
  from stopOnIdle_events_keep_idle [OF c i, of "[(1200, keydown), (1500, mousemove_at 3 4)]" 1600]
  show ?thesis using s i c by simp
qed

subsection \<open>Setup\<close>

text \<open>
  C5: setting the hook up fails with the configuration error exactly when both
  \<open>debounce\<close> and \<open>throttle\<close> are greater than 0, and returns a state for every
  other pair of values.
\<close>

theorem useIdleTimer_error_iff:
  "(useIdleTimer cfg now = Inl ConfigurationError) = (0 < debounce cfg \<and> 0 < throttle cfg) \<and>
   (\<exists>s. useIdleTimer cfg now = Inr s) = (\<not> (0 < debounce cfg \<and> 0 < throttle cfg))"
  by (simp add: useIdleTimer_def mountEffect_def Let_def)

text \<open>
  C9 as stated fails in its parenthesis: the idle flag of a dormant core is cleared
  without \<open>reset()\<close>. With \<open>startOnMount = false\<close> and \<open>stopOnIdle = false\<close>,
  \<open>isIdle()\<close> is true after setup at time 0 and false after a \<open>keydown\<close> delivered
  at time 500.
\<close>

theorem dormant_flag_cleared_by_event:
  "map_option isIdle (session cfgDormant 0 []) = Some True \<and>
   map_option isIdle (session cfgDormant 0 [(500, Deliver keydown)]) = Some False"
  by (simp add: model_defs example_defs)

text \<open>
  C9, amended: the idle flag is created true, and setup clears it exactly when
  \<open>startOnMount\<close> makes it call \<open>reset()\<close>. So for a core set up with
  \<open>startOnMount = false\<close>, \<open>isIdle()\<close> is true right after setup although no idle
  transition has occurred: \<open>getLastIdleTime()\<close> is \<open>null\<close>, no callback has been
  called and no deadline is armed. With \<open>stopOnIdle\<close> the flag then stays true
  under every list of delivered events.
\<close>

theorem dormant_after_setup:
  "\<not> (0 < debounce cfg \<and> 0 < throttle cfg) \<Longrightarrow>
     isIdle (initial cfg now) \<and>
     (\<exists>s. useIdleTimer cfg now = Inr s \<and>
        isIdle s = (\<not> startOnMount cfg) \<and>
        (\<not> startOnMount cfg \<longrightarrow>
           getLastIdleTime s = None \<and> calls s = [] \<and> tId s = None \<and> timers s = [] \<and>
           (stopOnIdle cfg \<longrightarrow> (\<forall>es. isIdle (deliver cfg es s)))))"
proof (intro conjI)
  assume ok: "\<not> (0 < debounce cfg \<and> 0 < throttle cfg)"
  show "isIdle (initial cfg now)"
    by (simp add: isIdle_def initial_def)
  define s where "s = timeoutEffect cfg (timeout cfg) now
    (let s1 = bindEvents cfg (initial cfg now)
     in if startOnMount cfg then reset cfg now s1 else s1)"
  have built: "useIdleTimer cfg now = Inr s"
    using ok by (simp add: useIdleTimer_def mountEffect_def s_def Let_def)
  have flag: "isIdle s = (\<not> startOnMount cfg)"
    by (simp add: s_def model_defs)
  have dormant: "getLastIdleTime s = None \<and> calls s = [] \<and> tId s = None \<and> timers s = []"
    if "\<not> startOnMount cfg"
    using that by (simp add: s_def model_defs)
  have frozen: "\<forall>es. isIdle (deliver cfg es s)"
    if "\<not> startOnMount cfg" and "stopOnIdle cfg"
    using that flag by (simp add: isIdle_def deliver_keeps_idle)
  from built flag dormant frozen
  show "\<exists>s. useIdleTimer cfg now = Inr s \<and>
        isIdle s = (\<not> startOnMount cfg) \<and>
        (\<not> startOnMount cfg \<longrightarrow>
           getLastIdleTime s = None \<and> calls s = [] \<and> tId s = None \<and> timers s = [] \<and>
           (stopOnIdle cfg \<longrightarrow> (\<forall>es. isIdle (deliver cfg es s))))"
    by blast
qed

theorem dormant_after_setup_witness:
  "\<not> (0 < debounce cfgDormantStop \<and> 0 < throttle cfgDormantStop) \<and>
   \<not> startOnMount cfgDormantStop \<and> stopOnIdle cfgDormantStop \<and>
   (\<exists>s. useIdleTimer cfgDormantStop 0 = Inr s \<and> isIdle s \<and> getLastIdleTime s = None \<and>
      isIdle (deliver cfgDormantStop [(500, keydown), (900, mousemove_at 1 2)] s))"
proof -
  have c: "\<not> (0 < debounce cfgDormantStop \<and> 0 < throttle cfgDormantStop)"
    and d: "\<not> startOnMount cfgDormantStop" and f: "stopOnIdle cfgDormantStop"
    by (simp_all add: cfgDormantStop_def cfg1000_def)
  from dormant_after_setup [OF c, of 0] d f
  obtain s where "useIdleTimer cfgDormantStop 0 = Inr s" and "isIdle s"
    and "getLastIdleTime s = None" and "\<forall>es. isIdle (deliver cfgDormantStop es s)"
    by blast
  with c d f show ?thesis
    by blast
qed

subsection \<open>Transition to idle\<close>

text \<open>
  C6: every transition from Active to Idle records \<open>lastIdle = now - timeout\<close>, and
  the \<open>onIdle\<close> callback already sees that value and \<open>isIdle() = true\<close>; this holds
  where the timer calls \<open>_toggleIdleState\<close> and where an overdue event does. In
  particular with timeout 1000, set up at \<open>t0\<close> with \<open>startOnMount\<close> and no events,
  when the deadline (handle 2) fires \<open>slack\<close> ms late, \<open>getLastIdleTime()\<close> inside
  \<open>onIdle\<close> is \<open>t0 + slack\<close>.
\<close>

theorem lastIdle_backdated:
  "(\<not> idle s \<longrightarrow>
      isIdle (toggleIdleState cfg e now s) \<and>
      getLastIdleTime (toggleIdleState cfg e now s) = Some (now - timeout_ref s) \<and>
      last (calls (toggleIdleState cfg e now s)) =
        \<lparr>cb = OnIdle, arg = e, seenIdle = True, seenLastIdle = Some (now - timeout_ref s)\<rparr>) \<and>
   (\<not> idle s \<and> \<not> truthy (remaining s) \<and> etype ev \<noteq> ''mousemove'' \<and>
    timeout_ref s < now - to_number (lastActive s) \<longrightarrow>
      isIdle (handleEvent cfg ev now s) \<and>
      getLastIdleTime (handleEvent cfg ev now s) = Some (now - timeout_ref s)) \<and>
   (timeout cfg = 1000 \<and> startOnMount cfg \<and> \<not> (0 < debounce cfg \<and> 0 < throttle cfg) \<and>
    0 \<le> slack \<longrightarrow>
      map_option (\<lambda>s. (isIdle s, getLastIdleTime s, calls s))
        (session cfg t0 [(t0 + 1000 + slack, Fire 2)]) =
      Some (True, Some (t0 + slack),
        [\<lparr>cb = OnIdle, arg = None, seenIdle = True, seenLastIdle = Some (t0 + slack)\<rparr>]))"
proof (intro conjI impI)
  assume "\<not> idle s"
  then show "isIdle (toggleIdleState cfg e now s)"
    and "getLastIdleTime (toggleIdleState cfg e now s) = Some (now - timeout_ref s)"
    and "last (calls (toggleIdleState cfg e now s)) =
        \<lparr>cb = OnIdle, arg = e, seenIdle = True, seenLastIdle = Some (now - timeout_ref s)\<rparr>"
    by (simp_all add: model_defs split: option.split)
next
  assume a: "\<not> idle s \<and> \<not> truthy (remaining s) \<and> etype ev \<noteq> ''mousemove'' \<and>
    timeout_ref s < now - to_number (lastActive s)"
  then show "isIdle (handleEvent cfg ev now s)"
    by (simp add: model_defs split: option.split)
  from a show "getLastIdleTime (handleEvent cfg ev now s) = Some (now - timeout_ref s)"
    by (simp add: model_defs split: option.split)
next
  assume "timeout cfg = 1000 \<and> startOnMount cfg \<and> \<not> (0 < debounce cfg \<and> 0 < throttle cfg) \<and>
    0 \<le> slack"
  then show "map_option (\<lambda>s. (isIdle s, getLastIdleTime s, calls s))
        (session cfg t0 [(t0 + 1000 + slack, Fire 2)]) =
      Some (True, Some (t0 + slack),
        [\<lparr>cb = OnIdle, arg = None, seenIdle = True, seenLastIdle = Some (t0 + slack)\<rparr>])"
    by (simp add: model_defs)
qed

theorem lastIdle_backdated_witness:
  "\<not> idle (reset cfg1000 0 (initial cfg1000 0)) \<and>
   \<not> truthy (remaining (reset cfg1000 0 (initial cfg1000 0))) \<and>
   etype keydown \<noteq> ''mousemove'' \<and>
   timeout_ref (reset cfg1000 0 (initial cfg1000 0)) <
     1200 - to_number (lastActive (reset cfg1000 0 (initial cfg1000 0))) \<and>
   getLastIdleTime (toggleIdleState cfg1000 None 1200 (reset cfg1000 0 (initial cfg1000 0))) =
     Some 200 \<and>
   getLastIdleTime (handleEvent cfg1000 keydown 1200 (reset cfg1000 0 (initial cfg1000 0))) =
     Some 200 \<and>
   timeout cfg1000 = 1000 \<and> startOnMount cfg1000 \<and>
   \<not> (0 < debounce cfg1000 \<and> 0 < throttle cfg1000) \<and> (0::int) \<le> 3 \<and>
   map_option (\<lambda>s. (isIdle s, getLastIdleTime s, calls s))
     (session cfg1000 7 [(7 + 1000 + 3, Fire 2)]) =
   Some (True, Some 10,
     [\<lparr>cb = OnIdle, arg = None, seenIdle = True, seenLastIdle = Some 10\<rparr>])"
  using lastIdle_backdated [where s = "reset cfg1000 0 (initial cfg1000 0)" and cfg = cfg1000
      and e = None and now = 1200 and ev = keydown and slack = 3 and ?t0.0 = 7]
  by (simp add: reset_def initial_def cfg1000_def keydown_def clear_tId_def clearTimeout_def
      bindEvents_def setTimeout_tId_def truthy_def to_number_def Let_def)

subsection \<open>Resuming while idle\<close>

text \<open>
  While the snapshot is truthy \<open>_handleEvent\<close> returns right after the call to the
  \<open>onAction\<close> emitter, so a list of events only extends the list of calls.
\<close>

lemma deliver_while_truthy:
  "truthy (remaining s) \<Longrightarrow>
     deliver cfg es s = s\<lparr>calls := calls s @ map (\<lambda>te. action_call s (snd te)) es\<rparr>"
proof (induction es arbitrary: s)
  case Nil
  then show ?case by simp
next
  case (Cons te es)
  obtain t e where te: "te = (t, e)" by (cases te)
  let ?s0 = "emit OnAction (Some e) s"
  have h: "handleEvent cfg e t s = ?s0"
    using Cons.prems by (simp add: handleEvent_def emit_def Let_def)
  have r: "truthy (remaining ?s0)"
    using Cons.prems by (simp add: emit_def)
  have "deliver cfg (te # es) s = deliver cfg es ?s0"
    by (simp add: te h)
  also have "\<dots> = ?s0\<lparr>calls := calls ?s0 @ map (\<lambda>te. action_call ?s0 (snd te)) es\<rparr>"
    by (rule Cons.IH [OF r])
  also have "\<dots> = s\<lparr>calls := calls s @ map (\<lambda>te. action_call s (snd te)) (te # es)\<rparr>"
    by (simp add: emit_def action_call_def te)
  finally show ?case .
qed

text \<open>
  \<open>resume()\<close> while paused and Idle only binds the events (in a browser); the
  snapshot stays non-null and no deadline is armed. Where the test of line 91 then
  stops the events (a snapshot that is not 0), every list of delivered events only
  adds the \<open>onAction\<close> calls, and a later \<open>resume()\<close> still finds the snapshot.
\<close>

lemma resume_while_paused_idle:
  "remaining s = Some r \<Longrightarrow> idle s \<Longrightarrow>
     resume cfg now s = s\<lparr>eventsBound := (is_browser cfg \<or> eventsBound s)\<rparr> \<and>
     remaining (resume cfg now s) = Some r \<and>
     tId (resume cfg now s) = tId s \<and>
     timers (resume cfg now s) = timers s \<and>
     isIdle (resume cfg now s) \<and>
     (r \<noteq> 0 \<longrightarrow>
        (\<forall>es. deliver cfg es (resume cfg now s) =
           (resume cfg now s)\<lparr>calls := calls s @ map (\<lambda>te. action_call s (snd te)) es\<rparr> \<and>
           remaining (deliver cfg es (resume cfg now s)) = Some r \<and>
           resume cfg later (deliver cfg es (resume cfg now s)) =
             deliver cfg es (resume cfg now s)))"
proof -
  assume r: "remaining s = Some r" and i: "idle s"
  let ?s' = "resume cfg now s"
  have eq: "?s' = s\<lparr>eventsBound := (is_browser cfg \<or> eventsBound s)\<rparr>"
    using r i by (cases "eventsBound s") (simp_all add: resume_def bindEvents_def Let_def)
  have after: "deliver cfg es ?s' =
        ?s'\<lparr>calls := calls s @ map (\<lambda>te. action_call s (snd te)) es\<rparr> \<and>
      remaining (deliver cfg es ?s') = Some r \<and>
      resume cfg later (deliver cfg es ?s') = deliver cfg es ?s'"
    if nz: "r \<noteq> 0" for es
  proof -
    have t: "truthy (remaining ?s')"
      using r nz by (simp add: eq truthy_def)
    have d: "deliver cfg es ?s' =
        ?s'\<lparr>calls := calls s @ map (\<lambda>te. action_call s (snd te)) es\<rparr>"
      using deliver_while_truthy [OF t, of cfg es] by (simp add: eq action_call_def)
    have "resume cfg later (deliver cfg es ?s') = deliver cfg es ?s'"
      using r i by (simp add: d) (simp add: eq resume_def bindEvents_def Let_def)
    with d r show ?thesis by (simp add: eq)
  qed
  have kept: "remaining ?s' = Some r \<and> tId ?s' = tId s \<and> timers ?s' = timers s \<and>
      isIdle ?s'"
    using r i by (simp add: eq isIdle_def)
  from eq kept after show ?thesis
    by blast
qed

text \<open>
  C10: after \<open>resume()\<close> while paused and Idle the snapshot is still set, so every
  delivered event should call \<open>onAction\<close> and return before any timer or state
  evaluation. The code evaluated where it does not: \<open>_handleEvent\<close> tests the
  snapshot for truthiness, where \<open>getRemainingTime\<close>, \<open>pause\<close> and \<open>resume\<close>
  compare it with \<open>null\<close>, and the snapshot here is 0. Timeout 1000, set up at time
  0; the deadline fires at 1000; \<open>pause()\<close> at 1500 stores the snapshot 0;
  \<open>resume()\<close> at 1600 binds the events, keeps the snapshot 0 and arms nothing. The
  \<open>keydown\<close> delivered at 1700 is processed in full: the machine becomes Active,
  \<open>lastActive\<close> is 1700 and a deadline of 1000 ms is armed, while the snapshot is
  still 0. From there \<open>getRemainingTime()\<close> returns 0, a \<open>pause()\<close> at 1800 returns
  at its guard and leaves the deadline running, and a \<open>resume()\<close> at 1800 arms a
  second timer beside the first.
\<close>

theorem resume_idle_zero_snapshot_event:
  "map_option (\<lambda>s. (remaining s, isIdle s, eventsBound s, tId s, timers s))
     (session cfg1000 0 [(1000, Fire 2), (1500, Pause), (1600, Resume)]) =
     Some (Some 0, True, True, None, []) \<and>
   map_option (\<lambda>s. (remaining s, isIdle s, lastActive s, tId s, timers s))
     (session cfg1000 0 [(1000, Fire 2), (1500, Pause), (1600, Resume), (1700, Deliver keydown)]) =
     Some (Some 0, False, Some 1700, Some 3, [\<lparr>hid = 3, armedAt = 1700, delay = 1000\<rparr>]) \<and>
   map_option (\<lambda>s. getRemainingTime s 1700)
     (session cfg1000 0 [(1000, Fire 2), (1500, Pause), (1600, Resume), (1700, Deliver keydown)]) =
     Some 0 \<and>
   map_option (\<lambda>s. (remaining s, tId s, timers s))
     (session cfg1000 0 [(1000, Fire 2), (1500, Pause), (1600, Resume), (1700, Deliver keydown),
        (1800, Pause)]) =
     Some (Some 0, Some 3, [\<lparr>hid = 3, armedAt = 1700, delay = 1000\<rparr>]) \<and>
   map_option (\<lambda>s. (remaining s, tId s, timers s))
     (session cfg1000 0 [(1000, Fire 2), (1500, Pause), (1600, Resume), (1700, Deliver keydown),
        (1800, Resume)]) =
     Some (None, Some 4, [\<lparr>hid = 3, armedAt = 1700, delay = 1000\<rparr>,
        \<lparr>hid = 4, armedAt = 1800, delay = 0\<rparr>])"
  by (simp add: model_defs example_defs)

end
